theory Spec2Isabelle
  imports Main "HOL-Library.Multiset"
begin

section \<open>Ensemble Variant Detection: the pipeline skeleton of eve.py\<close>

text \<open>
  The program is the class \<open>EVE\<close> of \<open>eve.py\<close>: its constructor parses and validates the
  command line, creates a working directory, sets up logging and builds the list of
  detectors; \<open>run\<close> maps the reads when the arguments carry an alignment; the script
  entry point exits with what \<open>run\<close> returns.

  Everything the program asks of the operating system and of the Python library is a
  field of an environment record over an abstract world \<open>'w\<close>; the functions below are
  the source's own control flow over that environment. Exceptions are values of
  \<open>error\<close>, and a function that can raise returns \<open>error + 'a\<close>.
\<close>

subsection \<open>Strings and paths\<close>

definition startswith :: "string \<Rightarrow> string \<Rightarrow> bool" where
  "startswith s p = (take (length p) s = p)"

definition endswith :: "string \<Rightarrow> string \<Rightarrow> bool" where
  "endswith s p = (length p \<le> length s \<and> drop (length s - length p) s = p)"

text \<open>\<open>s.split(sep)\<close> for a one-character separator: every separator ends a field, and
  the empty string has the single field \<open>''\<close>.\<close>

fun split_on :: "char \<Rightarrow> string \<Rightarrow> string list" where
  "split_on c [] = [[]]"
| "split_on c (x # xs) =
     (if x = c then [] # split_on c xs
      else (case split_on c xs of
              [] \<Rightarrow> [[x]]
            | f # fs \<Rightarrow> (x # f) # fs))"

text \<open>\<open>os.path.join\<close> of \<open>posixpath\<close>, for two components and folded over more: a
  component that starts with a slash discards what precedes it.\<close>

definition path_join :: "string \<Rightarrow> string \<Rightarrow> string" where
  "path_join a b =
     (if startswith b ''/'' then b
      else if a = [] \<or> endswith a ''/'' then a @ b
      else a @ ''/'' @ b)"

definition path_join3 :: "string \<Rightarrow> string \<Rightarrow> string \<Rightarrow> string" where
  "path_join3 a b c = path_join (path_join a b) c"

subsection \<open>Time stamps\<close>

record datetime =
  year :: nat
  month :: nat
  day :: nat
  hour :: nat
  minute :: nat
  second :: nat
  microsecond :: nat

definition digit :: "nat \<Rightarrow> char" where
  "digit d = char_of (48 + d)"

definition pad2 :: "nat \<Rightarrow> string" where
  "pad2 n = [digit (n div 10 mod 10), digit (n mod 10)]"

definition pad4 :: "nat \<Rightarrow> string" where
  "pad4 n = [digit (n div 1000 mod 10), digit (n div 100 mod 10),
             digit (n div 10 mod 10), digit (n mod 10)]"

text \<open>\<open>strftime('%Y%m%d%H%M%S')\<close>: the four-digit year, then month, day, hour, minute
  and second with two digits each. The microsecond is not printed.\<close>

definition strftime_stamp :: "datetime \<Rightarrow> string" where
  "strftime_stamp t =
     pad4 (year t) @ pad2 (month t) @ pad2 (day t) @
     pad2 (hour t) @ pad2 (minute t) @ pad2 (second t)"


subsection \<open>Exceptions, arguments and objects\<close>

text \<open>The exceptions the source raises itself (\<open>IOError\<close>, and \<open>AttributeError\<close> on
  reading an attribute that was never set), the exit of \<open>argparse\<close>, an exception
  raised inside a library call (by its class name), and the error kinds that the
  specification names; no statement of the source raises one of the last three.\<close>

datatype error =
    SystemExit nat
  | IOError string
  | AttributeError string
  | LibraryError string
  | ConfigurationError
  | NoUsableDetectorOutputsError
  | OutputWriteError

text \<open>What \<open>parser.parse_args()\<close> stores: one attribute for each declared argument.\<close>

record arguments =
  input_reads :: "string list"
  output_file :: "string option"
  fasta :: string
  gff :: string
  mapper :: string
  variant_detectors :: string
  working_directory :: string

text \<open>The \<open>Namespace\<close> object that \<open>self.args\<close> holds: the declared arguments, and the
  attribute \<open>bam\<close>, which is \<open>None\<close> here when the object has no such attribute.
  \<open>'bam' in self.args\<close> is \<open>bam ns \<noteq> None\<close>; reading \<open>args.bam\<close> when it is absent
  raises \<open>AttributeError\<close>.\<close>

record namespace =
  ns_args :: arguments
  bam :: "string option"

text \<open>Classes of the package \<open>eve\<close> (\<open>mappers.BWAMapper\<close>, \<open>detectors.MpileupDetector\<close>)
  are not part of the source file: an instance is its class name with the constructor's
  arguments.\<close>

datatype py_instance = Instance string "string list"

record eve =
  args :: namespace
  working_dir :: string
  self_mapper :: "py_instance option"
  detectors :: "py_instance list"
  self_bam :: "string option"

subsection \<open>The environment\<close>

text \<open>The operating system and library calls of the source, over a world \<open>'w\<close>. A call
  that can raise returns the exception's class name. \<open>log_system_info\<close> only writes log
  records about the platform and is represented by its effect; \<open>mapper_run\<close> is the
  \<open>run\<close> method of the absent mapper class.\<close>

record 'w env =
  os_isfile :: "'w \<Rightarrow> string \<Rightarrow> bool"
  os_isdir :: "'w \<Rightarrow> string \<Rightarrow> bool"
  os_exists :: "'w \<Rightarrow> string \<Rightarrow> bool"
  os_makedirs :: "string \<Rightarrow> 'w \<Rightarrow> string option \<times> 'w"
  utcnow :: "'w \<Rightarrow> datetime"
  logging_setup :: "string \<Rightarrow> 'w \<Rightarrow> string option \<times> 'w"
  log_system_info :: "'w \<Rightarrow> string option \<times> 'w"
  logging_info :: "string \<Rightarrow> 'w \<Rightarrow> 'w"
  mapper_run :: "py_instance \<Rightarrow> string list \<Rightarrow> 'w \<Rightarrow> (string + string) \<times> 'w"

subsection \<open>parse_args\<close>

text \<open>The argument is the outcome of \<open>parser.parse_args()\<close>: the exit code when
  \<open>argparse\<close> rejects the command line, or the attributes it stored. The line
  \<open>args.bam == args.input_reads[0]\<close> is a comparison, not an assignment: it reads
  \<open>args.bam\<close> and discards the result.\<close>

definition parse_args :: "'w env \<Rightarrow> 'w \<Rightarrow> nat + arguments \<Rightarrow> error + namespace" where
  "parse_args e w cli =
     (case cli of
        Inl code \<Rightarrow> Inl (SystemExit code)
      | Inr a \<Rightarrow>
          let ns = \<lparr>ns_args = a, bam = None\<rparr> in
          if length (input_reads a) > 2
            then Inl (IOError ''Too many input arguments specified'')
          else if \<not> os_isfile e w (gff a)
            then Inl (IOError ''Invalid GFF filepath specified'')
          else if length (input_reads a) = 1 \<and> endswith (input_reads a ! 0) ''.bam''
            then (case bam ns of
                    None \<Rightarrow> Inl (AttributeError ''bam'')
                  | Some b \<Rightarrow> Inr ns)
          else Inr ns)"

subsection \<open>create_working_directories and initialize_logger\<close>

text \<open>The loop over \<open>['mapped', 'vcf']\<close>: a directory that exists already is kept, a
  missing one is made, and an exception of \<open>os.makedirs\<close> ends the loop.\<close>

fun make_subdirs :: "'w env \<Rightarrow> string \<Rightarrow> string list \<Rightarrow> 'w \<Rightarrow> string option \<times> 'w" where
  "make_subdirs e wd [] w = (None, w)"
| "make_subdirs e wd (subdir # rest) w =
     (let path = path_join wd subdir in
      if \<not> os_isdir e w path
        then (case os_makedirs e path w of
                (Some x, w') \<Rightarrow> (Some x, w')
              | (None, w') \<Rightarrow> make_subdirs e wd rest w')
      else make_subdirs e wd rest w)"

definition working_dir_name :: "string \<Rightarrow> datetime \<Rightarrow> string" where
  "working_dir_name base now = path_join base (strftime_stamp now)"

definition create_working_directories ::
  "'w env \<Rightarrow> namespace \<Rightarrow> 'w \<Rightarrow> (error + string) \<times> 'w" where
  "create_working_directories e ns w =
     (let now = utcnow e w;
          wd = working_dir_name (working_directory (ns_args ns)) now in
      case make_subdirs e wd [''mapped'', ''vcf''] w of
        (Some x, w') \<Rightarrow> (Inl (LibraryError x), w')
      | (None, w') \<Rightarrow> (Inr wd, w'))"

definition initialize_logger :: "'w env \<Rightarrow> string \<Rightarrow> 'w \<Rightarrow> string option \<times> 'w" where
  "initialize_logger e wd w = logging_setup e (path_join wd ''eve.log'') w"

subsection \<open>The constructor\<close>

text \<open>\<open>if 'bam' in self.args: self.mapper = mappers.BWAMapper()\<close>\<close>

definition load_mapper :: "namespace \<Rightarrow> py_instance option" where
  "load_mapper ns = (if bam ns \<noteq> None then Some (Instance ''BWAMapper'' []) else None)"

text \<open>The configuration file of a detector: the \<open>.yaml\<close> path when it exists, the
  \<open>.txt\<close> path otherwise, whether or not that one exists.\<close>

definition detector_conf :: "'w env \<Rightarrow> 'w \<Rightarrow> string \<Rightarrow> string" where
  "detector_conf e w detector =
     (let conf = path_join3 ''config'' ''detectors'' (detector @ ''.yaml'') in
      if \<not> os_exists e w conf
        then path_join3 ''config'' ''detectors'' (detector @ ''.txt'')
      else conf)"

text \<open>The loop over \<open>self.args.variant_detectors.split(',')\<close>, with the list built so
  far. Only the name \<open>mpileup\<close> appends a detector, and doing so reads
  \<open>self.args.bam\<close>.\<close>

fun load_detectors ::
  "'w env \<Rightarrow> 'w \<Rightarrow> namespace \<Rightarrow> string \<Rightarrow> string list \<Rightarrow> py_instance list
     \<Rightarrow> error + py_instance list" where
  "load_detectors e w ns wd [] acc = Inr acc"
| "load_detectors e w ns wd (detector # rest) acc =
     (let conf = detector_conf e w detector in
      if detector = ''mpileup''
        then (case bam ns of
                None \<Rightarrow> Inl (AttributeError ''bam'')
              | Some b \<Rightarrow>
                  load_detectors e w ns wd rest
                    (acc @ [Instance ''MpileupDetector'' [b, fasta (ns_args ns), conf, wd]]))
      else load_detectors e w ns wd rest acc)"

definition EVE_init :: "'w env \<Rightarrow> nat + arguments \<Rightarrow> 'w \<Rightarrow> (error + eve) \<times> 'w" where
  "EVE_init e cli w =
     (case parse_args e w cli of
        Inl err \<Rightarrow> (Inl err, w)
      | Inr ns \<Rightarrow>
         (case create_working_directories e ns w of
            (Inl err, w1) \<Rightarrow> (Inl err, w1)
          | (Inr wd, w1) \<Rightarrow>
             (case initialize_logger e wd w1 of
                (Some x, w2) \<Rightarrow> (Inl (LibraryError x), w2)
              | (None, w2) \<Rightarrow>
                 (case log_system_info e w2 of
                    (Some x, w3) \<Rightarrow> (Inl (LibraryError x), w3)
                  | (None, w3) \<Rightarrow>
                     (case load_detectors e w3 ns wd
                             (split_on CHR '','' (variant_detectors (ns_args ns))) [] of
                        Inl err \<Rightarrow> (Inl err, w3)
                      | Inr ds \<Rightarrow>
                          (Inr \<lparr>args = ns, working_dir = wd, self_mapper = load_mapper ns,
                                detectors = ds, self_bam = None\<rparr>, w3))))))"

subsection \<open>run and the entry point\<close>

text \<open>\<open>run\<close> maps the reads when \<open>'bam' in self.args\<close>; the other stages are comments
  in the source. It has no \<open>return\<close> statement, so it returns \<open>None\<close>: the unit value.
  The result is the outcome, the world and the object after the call.\<close>

definition run :: "'w env \<Rightarrow> eve \<Rightarrow> 'w \<Rightarrow> (error + unit) \<times> 'w \<times> eve" where
  "run e self w =
     (if bam (args self) \<noteq> None
        then (let w1 = logging_info e ''Mapping reads'' w in
              case self_mapper self of
                None \<Rightarrow> (Inl (AttributeError ''mapper''), w1, self)
              | Some m \<Rightarrow>
                 (case mapper_run e m (input_reads (ns_args (args self))) w1 of
                    (Inl x, w2) \<Rightarrow> (Inl (LibraryError x), w2, self)
                  | (Inr b, w2) \<Rightarrow> (Inr (), w2, self\<lparr>self_bam := Some b\<rparr>)))
      else (Inr (), w, self))"

text \<open>The exit status of the process: the code of a \<open>SystemExit\<close>, 1 for any other
  uncaught exception, and 0 for \<open>sys.exit(None)\<close>.\<close>

fun exit_status :: "error \<Rightarrow> nat" where
  "exit_status (SystemExit code) = code"
| "exit_status _ = 1"

definition main :: "'w env \<Rightarrow> nat + arguments \<Rightarrow> 'w \<Rightarrow> nat \<times> 'w" where
  "main e cli w =
     (case EVE_init e cli w of
        (Inl err, w1) \<Rightarrow> (exit_status err, w1)
      | (Inr app, w1) \<Rightarrow>
         (case run e app w1 of
            (Inl err, w2, app') \<Rightarrow> (exit_status err, w2)
          | (Inr u, w2, app') \<Rightarrow> (0, w2)))"

subsection \<open>The Merge Engine of the specification\<close>

text \<open>Modelled from the spec: the Merge Engine of section 4.3 with the Call Record,
  the Detector Run Result and the Candidate Site of section 3. The source has none of
  them: where \<open>run\<close> would run the detectors and merge their output it has comments
  only. A Candidate Site is its locus with, for each alternate allele, the Call Records
  that support it; the result of the merge is the mapping from locus to site, kept as
  the list of sites in the order of their first support. The ordering of the sites for
  output is not modelled.\<close>

record call_record =
  chromosome :: string
  position :: nat
  reference_allele :: string
  alternate_alleles :: "string list"
  detector :: string
  quality :: int
  raw_evidence :: "(string \<times> string) list"






text \<open>One more supporter of an alternate allele within a site: the group of the allele
  when there is one, a new group otherwise.\<close>

fun add_support ::
  "string \<Rightarrow> call_record \<Rightarrow> (string \<times> call_record list) list
     \<Rightarrow> (string \<times> call_record list) list" where
  "add_support alt r [] = [(alt, [r])]"
| "add_support alt r ((a, rs) # rest) =
     (if a = alt then (a, rs @ [r]) # rest else (a, rs) # add_support alt r rest)"











subsection \<open>A sample environment\<close>

text \<open>A small world to evaluate the program in: the regular files and directories that
  exist, the clock, and the log. \<open>os.makedirs\<close> makes the missing parents of a path as
  well, and raises when the path exists or a parent is a regular file; the other calls
  succeed.\<close>

record sample_world =
  sw_files :: "string list"
  sw_dirs :: "string list"
  sw_clock :: datetime
  sw_log :: "string list"

text \<open>The proper ancestors of a path: its prefixes up to each slash.\<close>

fun ancestors :: "string \<Rightarrow> string \<Rightarrow> string list" where
  "ancestors pre [] = []"
| "ancestors pre (c # cs) =
     (if c = CHR ''/'' \<and> pre \<noteq> [] then pre # ancestors (pre @ [c]) cs
      else ancestors (pre @ [c]) cs)"

definition sample_makedirs :: "string \<Rightarrow> sample_world \<Rightarrow> string option \<times> sample_world" where
  "sample_makedirs p w =
     (if p \<in> set (sw_files w) \<or> p \<in> set (sw_dirs w) then (Some ''FileExistsError'', w)
      else if \<exists>a \<in> set (ancestors [] p). a \<in> set (sw_files w)
        then (Some ''NotADirectoryError'', w)
      else (None, w\<lparr>sw_dirs :=
                      p # filter (\<lambda>a. a \<notin> set (sw_dirs w)) (ancestors [] p) @ sw_dirs w\<rparr>))"

definition sample_env :: "sample_world env" where
  "sample_env =
     \<lparr>os_isfile = (\<lambda>w p. p \<in> set (sw_files w)),
      os_isdir = (\<lambda>w p. p \<in> set (sw_dirs w)),
      os_exists = (\<lambda>w p. p \<in> set (sw_files w) \<or> p \<in> set (sw_dirs w)),
      os_makedirs = sample_makedirs,
      utcnow = sw_clock,
      logging_setup = (\<lambda>p w. (None, w\<lparr>sw_files := p # sw_files w\<rparr>)),
      log_system_info = (\<lambda>w. (None, w\<lparr>sw_log := ''Starting EVE'' # sw_log w\<rparr>)),
      logging_info = (\<lambda>m w. w\<lparr>sw_log := m # sw_log w\<rparr>),
      mapper_run = (\<lambda>m reads w. (Inr ''aligned.bam'', w))\<rparr>"

definition sample_clock :: datetime where
  "sample_clock = \<lparr>year = 2014, month = 3, day = 9, hour = 17, minute = 5, second = 42,
                    microsecond = 0\<rparr>"

definition sample_world0 :: sample_world where
  "sample_world0 = \<lparr>sw_files = [''genome.fasta'', ''genes.gff''], sw_dirs = [],
                     sw_clock = sample_clock, sw_log = []\<rparr>"

definition sample_args :: arguments where
  "sample_args =
     \<lparr>input_reads = [''r1.fastq'', ''r2.fastq''], output_file = Some ''calls.vcf'',
      fasta = ''genome.fasta'', gff = ''genes.gff'', mapper = ''bwa'',
      variant_detectors = ''gatk,varscan'', working_directory = ''output/''\<rparr>"

text \<open>The pipeline object and the world that the constructor leaves for the sample
  arguments in the sample world.\<close>

definition sample_app :: eve where
  "sample_app =
     \<lparr>args = \<lparr>ns_args = sample_args, bam = None\<rparr>,
      working_dir = ''output/20140309170542'', self_mapper = None, detectors = [],
      self_bam = None\<rparr>"

definition sample_world1 :: sample_world where
  "sample_world1 =
     \<lparr>sw_files = [''output/20140309170542/eve.log'', ''genome.fasta'', ''genes.gff''],
      sw_dirs = [''output/20140309170542/vcf'', ''output/20140309170542/mapped'',
                 ''output'', ''output/20140309170542''],
      sw_clock = sample_clock, sw_log = [''Starting EVE'']\<rparr>"


section \<open>Properties\<close>

subsection \<open>Facts about the stages\<close>

lemma parse_args_Inr:
  "parse_args e w cli = Inr ns \<Longrightarrow> bam ns = None \<and> cli = Inr (ns_args ns)"
  by (auto simp: parse_args_def Let_def split: sum.splits if_splits)

lemma load_detectors_no_bam:
  "bam ns = None \<Longrightarrow>
   load_detectors e w ns wd names acc =
     (if ''mpileup'' \<in> set names then Inl (AttributeError ''bam'') else Inr acc)"
  by (induction names arbitrary: acc) (auto simp: Let_def)

lemma load_detectors_with_bam:
  "bam ns = Some b \<Longrightarrow> \<exists>ds. load_detectors e w ns wd names acc = Inr ds"
  by (induction names arbitrary: acc) (auto simp: Let_def)

lemma load_detectors_error:
  "load_detectors e w ns wd names acc = Inl err \<Longrightarrow> err = AttributeError ''bam''"
proof (cases "bam ns")
  case None
  assume "load_detectors e w ns wd names acc = Inl err"
  with None show ?thesis by (simp add: load_detectors_no_bam split: if_splits)
next
  case (Some b)
  assume "load_detectors e w ns wd names acc = Inl err"
  with load_detectors_with_bam [OF Some, of e w wd names acc] show ?thesis by auto
qed

lemma run_no_bam: "bam (args self) = None \<Longrightarrow> run e self w = (Inr (), w, self)"
  by (simp add: run_def)

lemma EVE_init_Inr:
  assumes "EVE_init e cli w = (Inr app, w')"
  shows "bam (args app) = None \<and> detectors app = [] \<and> self_mapper app = None \<and>
         self_bam app = None"
  using assms
  by (auto simp: EVE_init_def load_mapper_def load_detectors_no_bam
           dest!: parse_args_Inr split: sum.splits prod.splits option.splits if_splits)

text \<open>The value of \<open>--mapper\<close> is carried in the arguments and read by no stage.\<close>

lemma load_detectors_mapper:
  "load_detectors e w (ns\<lparr>ns_args := (ns_args ns)\<lparr>mapper := m\<rparr>\<rparr>) wd names acc =
   load_detectors e w ns wd names acc"
  by (induction names arbitrary: acc) (auto simp: Let_def split: option.splits)

lemma parse_args_mapper:
  "parse_args e w (Inr (a\<lparr>mapper := m\<rparr>)) =
   map_sum id (\<lambda>ns. ns\<lparr>ns_args := (ns_args ns)\<lparr>mapper := m\<rparr>\<rparr>) (parse_args e w (Inr a))"
  by (simp add: parse_args_def Let_def)

lemma create_working_directories_mapper:
  "create_working_directories e (ns\<lparr>ns_args := (ns_args ns)\<lparr>mapper := m\<rparr>\<rparr>) w =
   create_working_directories e ns w"
  by (simp add: create_working_directories_def)

lemma EVE_init_mapper:
  "EVE_init e (Inr (a\<lparr>mapper := m\<rparr>)) w =
     (case EVE_init e (Inr a) w of
        (r, w') \<Rightarrow>
          (map_sum id
             (\<lambda>app. app\<lparr>args := (args app)\<lparr>ns_args := (ns_args (args app))\<lparr>mapper := m\<rparr>\<rparr>\<rparr>) r,
           w'))"
proof (cases "parse_args e w (Inr a)")
  case (Inl err)
  then show ?thesis by (simp add: EVE_init_def parse_args_mapper)
next
  case (Inr ns)
  then show ?thesis
    by (simp add: EVE_init_def parse_args_mapper create_working_directories_mapper
          load_detectors_mapper load_mapper_def
          split: prod.splits sum.splits option.splits)
qed

text \<open>Which exceptions the constructor can raise.\<close>

lemma parse_args_error:
  "parse_args e w cli = Inl err \<Longrightarrow>
   (\<exists>c. err = SystemExit c) \<or> (\<exists>m. err = IOError m) \<or> err = AttributeError ''bam''"
  by (auto simp: parse_args_def Let_def split: sum.splits if_splits)

lemma create_working_directories_error:
  "create_working_directories e ns w = (Inl err, w') \<Longrightarrow> \<exists>x. err = LibraryError x"
  by (auto simp: create_working_directories_def Let_def split: prod.splits option.splits)

lemma EVE_init_error:
  assumes "EVE_init e cli w = (Inl err, w')"
  shows "(\<exists>c. err = SystemExit c) \<or> (\<exists>m. err = IOError m) \<or> err = AttributeError ''bam'' \<or>
         (\<exists>x. err = LibraryError x)"
proof (cases "parse_args e w cli")
  case (Inl err')
  with assms have "err = err'" by (simp add: EVE_init_def)
  with parse_args_error [OF Inl] show ?thesis by blast
next
  case (Inr ns)
  obtain r1 w1 where c: "create_working_directories e ns w = (r1, w1)"
    by (cases "create_working_directories e ns w")
  show ?thesis
  proof (cases r1)
    case (Inl err')
    with assms Inr c have "err = err'" by (simp add: EVE_init_def)
    with create_working_directories_error [of e ns w err' w1] c Inl show ?thesis by blast
  next
    case wd: (Inr wd)
    obtain r2 w2 where l: "initialize_logger e wd w1 = (r2, w2)"
      by (cases "initialize_logger e wd w1")
    obtain r3 w3 where s: "log_system_info e w2 = (r3, w3)"
      by (cases "log_system_info e w2")
    from assms Inr c wd l s show ?thesis
      by (auto simp: EVE_init_def dest: load_detectors_error
            split: option.splits sum.splits)
  qed
qed



lemma length_pad [simp]: "length (pad2 n) = 2" "length (pad4 n) = 4"
  by (simp_all add: pad2_def pad4_def)












text \<open>The detector loop when the arguments have the attribute \<open>bam\<close>: one
  \<open>MpileupDetector\<close> for each occurrence of \<open>mpileup\<close>, built from the configuration
  path that the lookup chose.\<close>

lemma load_detectors_bam:
  "bam ns = Some b \<Longrightarrow>
   load_detectors e w ns wd names acc =
     Inr (acc @ map (\<lambda>d. Instance ''MpileupDetector''
                               [b, fasta (ns_args ns), detector_conf e w d, wd])
                    (filter (\<lambda>d. d = ''mpileup'') names))"
  by (induction names arbitrary: acc) (simp_all add: Let_def)

text \<open>Configuration paths of names that do not start with a slash.\<close>

lemma path_join3_plain:
  "\<not> startswith (name @ ext) ''/'' \<Longrightarrow>
   path_join3 ''config'' ''detectors'' (name @ ext) = ''config/detectors/'' @ name @ ext"
  by (simp add: path_join3_def path_join_def startswith_def endswith_def)

lemma startswith_name_ext:
  "startswith (name @ ''.yaml'') ''/'' = startswith name ''/''"
  "startswith (name @ ''.txt'') ''/'' = startswith name ''/''"
  by (cases name; simp add: startswith_def)+

text \<open>The sample run: the constructor succeeds for the detector lists \<open>gatk,varscan\<close>
  and \<open>varscan,gatk\<close>, and raises \<open>AttributeError\<close> once \<open>mpileup\<close> is listed.\<close>

lemma sample_EVE_init:
  "EVE_init sample_env (Inr sample_args) sample_world0 = (Inr sample_app, sample_world1)"
  by code_simp



text \<open>The exit status of the program, stage by stage: after a constructor that
  succeeded, \<open>run\<close> changes nothing and the status is 0.\<close>

lemma main_eq:
  "main e cli w =
     (case EVE_init e cli w of
        (Inl err, w1) \<Rightarrow> (exit_status err, w1)
      | (Inr app, w1) \<Rightarrow> (0, w1))"
proof -
  obtain r w1 where i: "EVE_init e cli w = (r, w1)" by (cases "EVE_init e cli w")
  show ?thesis
  proof (cases r)
    case (Inl err)
    with i show ?thesis by (simp add: main_def)
  next
    case (Inr app)
    with i have "bam (args app) = None" by (simp add: EVE_init_Inr)
    then have "run e app w1 = (Inr (), w1, app)" by (rule run_no_bam)
    with i Inr show ?thesis by (simp add: main_def)
  qed
qed




text \<open>The merge of the specification: keys, groups and recorded detectors under one
  more call.\<close>

lemma add_support_fst:
  "map fst (add_support alt r groups) =
     (if alt \<in> fst ` set groups then map fst groups else map fst groups @ [alt])"
  by (induction groups) (fastforce simp: image_iff)+

lemma add_support_keys:
  "fst ` set (add_support alt r groups) = insert alt (fst ` set groups)"
proof -
  have "set (map fst (add_support alt r groups)) = insert alt (set (map fst groups))"
    unfolding add_support_fst by auto
  then show ?thesis by simp
qed
























subsection \<open>Argument validation\<close>

text \<open>
  C9. \<open>parse_args\<close> raises \<open>IOError\<close> exactly when more than two \<open>input_reads\<close> paths
  were given or the \<open>--gff\<close> path is not an existing file. The file system is consulted
  for the \<open>--gff\<close> path only: two environments that agree on whether that path is a
  file give the same outcome, whatever holds of the \<open>--fasta\<close>, \<open>--output\<close> and
  \<open>--working-directory\<close> paths. When \<open>argparse\<close> itself rejects the command line the
  outcome is its \<open>SystemExit\<close>.
\<close>

theorem parse_args_IOError_iff:
  "((\<exists>msg. parse_args e w (Inr a) = Inl (IOError msg)) \<longleftrightarrow>
      (2 < length (input_reads a) \<or> \<not> os_isfile e w (gff a))) \<and>
   (os_isfile e' w' (gff a) = os_isfile e w (gff a) \<longrightarrow>
      parse_args e' w' (Inr a) = parse_args e w (Inr a)) \<and>
   parse_args e w (Inl code) = Inl (SystemExit code)"
  by (auto simp: parse_args_def Let_def)

text \<open>In the sample world: a missing annotation file and a third input path each give
  \<open>IOError\<close>; removing the genome file from the world changes nothing.\<close>

theorem parse_args_IOError_iff_witness:
  "parse_args sample_env sample_world0 (Inr (sample_args\<lparr>gff := ''missing.gff''\<rparr>))
     = Inl (IOError ''Invalid GFF filepath specified'') \<and>
   parse_args sample_env sample_world0
       (Inr (sample_args\<lparr>input_reads := [''a.fastq'', ''b.fastq'', ''c.fastq'']\<rparr>))
     = Inl (IOError ''Too many input arguments specified'') \<and>
   parse_args sample_env (sample_world0\<lparr>sw_files := [''genes.gff'']\<rparr>) (Inr sample_args)
     = parse_args sample_env sample_world0 (Inr sample_args) \<and>
   parse_args sample_env sample_world0 (Inr sample_args)
     = Inr \<lparr>ns_args = sample_args, bam = None\<rparr>"
  using parse_args_IOError_iff [where e = sample_env and w = sample_world0
          and a = "sample_args\<lparr>gff := ''missing.gff''\<rparr>"
          and e' = sample_env and w' = sample_world0]
        parse_args_IOError_iff [where e = sample_env and w = sample_world0
          and a = "sample_args\<lparr>input_reads := [''a.fastq'', ''b.fastq'', ''c.fastq'']\<rparr>"
          and e' = sample_env and w' = sample_world0]
        parse_args_IOError_iff [where e = sample_env and w = sample_world0
          and a = sample_args and e' = sample_env
          and w' = "sample_world0\<lparr>sw_files := [''genes.gff'']\<rparr>"]
  by (simp add: parse_args_def sample_env_def sample_world0_def sample_args_def endswith_def)

text \<open>A single \<open>.bam\<close> input together with a \<open>--gff\<close> path that is not a file: the
  annotation check comes first, and the exception is \<open>IOError\<close>, not \<open>AttributeError\<close>.\<close>

theorem bam_never_assigned_counterexample:
  "length (input_reads (sample_args\<lparr>input_reads := [''reads.bam''], gff := ''missing.gff''\<rparr>)) = 1 \<and>
   endswith (input_reads (sample_args\<lparr>input_reads := [''reads.bam''], gff := ''missing.gff''\<rparr>) ! 0)
     ''.bam'' \<and>
   parse_args sample_env sample_world0
      (Inr (sample_args\<lparr>input_reads := [''reads.bam''], gff := ''missing.gff''\<rparr>))
     = Inl (IOError ''Invalid GFF filepath specified'')"
  by (simp add: parse_args_def sample_env_def sample_world0_def sample_args_def endswith_def)

text \<open>
  C8 (amended). The attribute \<open>bam\<close> is never assigned. For a single input path ending
  in \<open>.bam\<close>, \<open>parse_args\<close> raises \<open>AttributeError\<close> when the \<open>--gff\<close> path is an
  existing file and \<open>IOError\<close> when it is not; it never returns, so BAM input does not
  reach the pipeline. Every namespace that \<open>parse_args\<close> returns lacks \<open>bam\<close>, so the
  detector loop raises \<open>AttributeError\<close> as soon as \<open>mpileup\<close> is among the names, and
  the constructor fails for every command line that lists \<open>mpileup\<close>: with
  \<open>AttributeError\<close> whenever the stages before the detector loop succeed.
\<close>

theorem bam_never_assigned:
  "(length (input_reads a) = 1 \<and> endswith (input_reads a ! 0) ''.bam'' \<longrightarrow>
      parse_args e w (Inr a) =
        (if os_isfile e w (gff a) then Inl (AttributeError ''bam'')
         else Inl (IOError ''Invalid GFF filepath specified''))) \<and>
   (parse_args e w cli = Inr ns \<longrightarrow> bam ns = None) \<and>
   (parse_args e w cli = Inr ns \<and> ''mpileup'' \<in> set names \<longrightarrow>
      load_detectors e w' ns wd names acc = Inl (AttributeError ''bam'')) \<and>
   (''mpileup'' \<in> set (split_on CHR '','' (variant_detectors a)) \<longrightarrow>
      (\<exists>err. fst (EVE_init e (Inr a) w) = Inl err)) \<and>
   (parse_args e w (Inr a) = Inr ns' \<and>
    create_working_directories e ns' w = (Inr d, w1) \<and>
    initialize_logger e d w1 = (None, w2) \<and>
    log_system_info e w2 = (None, w3) \<and>
    ''mpileup'' \<in> set (split_on CHR '','' (variant_detectors a)) \<longrightarrow>
      EVE_init e (Inr a) w = (Inl (AttributeError ''bam''), w3))"
proof (intro conjI impI)
  assume "length (input_reads a) = 1 \<and> endswith (input_reads a ! 0) ''.bam''"
  then show "parse_args e w (Inr a) =
        (if os_isfile e w (gff a) then Inl (AttributeError ''bam'')
         else Inl (IOError ''Invalid GFF filepath specified''))"
    by (simp add: parse_args_def)
next
  assume "parse_args e w cli = Inr ns"
  then show "bam ns = None" by (simp add: parse_args_Inr)
next
  assume "parse_args e w cli = Inr ns \<and> ''mpileup'' \<in> set names"
  then show "load_detectors e w' ns wd names acc = Inl (AttributeError ''bam'')"
    by (auto dest: parse_args_Inr simp: load_detectors_no_bam)
next
  assume m: "''mpileup'' \<in> set (split_on CHR '','' (variant_detectors a))"
  show "\<exists>err. fst (EVE_init e (Inr a) w) = Inl err"
  proof (cases "fst (EVE_init e (Inr a) w)")
    case (Inl err)
    then show ?thesis by blast
  next
    case (Inr app)
    then have "EVE_init e (Inr a) w = (Inr app, snd (EVE_init e (Inr a) w))"
      by (metis prod.collapse)
    then have False using m
      by (auto simp: EVE_init_def load_detectors_no_bam
           dest!: parse_args_Inr split: sum.splits prod.splits option.splits if_splits)
    then show ?thesis ..
  qed
next
  assume r: "parse_args e w (Inr a) = Inr ns' \<and>
    create_working_directories e ns' w = (Inr d, w1) \<and>
    initialize_logger e d w1 = (None, w2) \<and>
    log_system_info e w2 = (None, w3) \<and>
    ''mpileup'' \<in> set (split_on CHR '','' (variant_detectors a))"
  then have "bam ns' = None" and "ns_args ns' = a"
    using parse_args_Inr [of e w "Inr a" ns'] by simp_all
  with r show "EVE_init e (Inr a) w = (Inl (AttributeError ''bam''), w3)"
    by (simp add: EVE_init_def load_detectors_no_bam)
qed

text \<open>In the sample world, where \<open>genes.gff\<close> exists: a \<open>.bam\<close> input raises
  \<open>AttributeError\<close> in \<open>parse_args\<close>; paired FASTQ input with the default detector list
  \<open>gatk,mpileup,varscan\<close> passes \<open>parse_args\<close> and raises it in the constructor.\<close>

theorem bam_never_assigned_witness:
  "length (input_reads (sample_args\<lparr>input_reads := [''reads.bam'']\<rparr>)) = 1 \<and>
   endswith (input_reads (sample_args\<lparr>input_reads := [''reads.bam'']\<rparr>) ! 0) ''.bam'' \<and>
   parse_args sample_env sample_world0 (Inr (sample_args\<lparr>input_reads := [''reads.bam'']\<rparr>))
     = Inl (AttributeError ''bam'') \<and>
   parse_args sample_env sample_world0
      (Inr (sample_args\<lparr>variant_detectors := ''gatk,mpileup,varscan''\<rparr>))
     = Inr \<lparr>ns_args = sample_args\<lparr>variant_detectors := ''gatk,mpileup,varscan''\<rparr>, bam = None\<rparr> \<and>
   ''mpileup'' \<in> set (split_on CHR '','' ''gatk,mpileup,varscan'') \<and>
   load_detectors sample_env sample_world0
      \<lparr>ns_args = sample_args\<lparr>variant_detectors := ''gatk,mpileup,varscan''\<rparr>, bam = None\<rparr>
      ''output/20140309170542'' (split_on CHR '','' ''gatk,mpileup,varscan'') []
     = Inl (AttributeError ''bam'') \<and>
   EVE_init sample_env (Inr (sample_args\<lparr>variant_detectors := ''gatk,mpileup,varscan''\<rparr>))
      sample_world0 = (Inl (AttributeError ''bam''), sample_world1)"
proof -
  let ?a = "sample_args\<lparr>variant_detectors := ''gatk,mpileup,varscan''\<rparr>"
  let ?b = "sample_args\<lparr>input_reads := [''reads.bam'']\<rparr>"
  have m: "''mpileup'' \<in> set (split_on CHR '','' ''gatk,mpileup,varscan'')"
    by simp
  have p: "parse_args sample_env sample_world0 (Inr ?a) = Inr \<lparr>ns_args = ?a, bam = None\<rparr>"
    by (simp add: parse_args_def sample_env_def sample_world0_def sample_args_def
          endswith_def)
  have b: "length (input_reads ?b) = 1 \<and> endswith (input_reads ?b ! 0) ''.bam'' \<and>
           os_isfile sample_env sample_world0 (gff ?b)"
    by (simp add: sample_env_def sample_world0_def sample_args_def endswith_def)
  have v: "variant_detectors ?a = ''gatk,mpileup,varscan''"
    by simp
  have i: "EVE_init sample_env (Inr ?a) sample_world0 =
             (Inl (AttributeError ''bam''), sample_world1)"
    by code_simp
  show ?thesis
    using b m p v i
      bam_never_assigned [where a = ?b and e = sample_env and w = sample_world0
        and cli = "Inr ?a" and ns = "\<lparr>ns_args = ?a, bam = None\<rparr>"
        and names = "split_on CHR '','' ''gatk,mpileup,varscan''"
        and w' = sample_world0 and wd = "''output/20140309170542''" and acc = "[]"]
      bam_never_assigned [where a = ?a and e = sample_env and w = sample_world0
        and cli = "Inr ?a" and ns = "\<lparr>ns_args = ?a, bam = None\<rparr>"
        and names = "split_on CHR '','' ''gatk,mpileup,varscan''"
        and w' = sample_world0 and wd = "''output/20140309170542''" and acc = "[]"]
    by simp
qed

subsection \<open>The mapper\<close>

text \<open>
  C10. The \<open>--mapper\<close> option has no effect on mapper selection. Loading the mapper
  reads only whether the arguments have the attribute \<open>bam\<close>; whenever a mapper is
  loaded it is a \<open>BWAMapper\<close>, and the mapper and the world that the constructor
  leaves behind are the same for every value of \<open>--mapper\<close>.
\<close>

theorem mapper_option_ignored:
  "load_mapper (ns\<lparr>ns_args := (ns_args ns)\<lparr>mapper := m\<rparr>\<rparr>) = load_mapper ns \<and>
   (load_mapper ns = Some x \<longrightarrow> x = Instance ''BWAMapper'' []) \<and>
   map_sum id self_mapper (fst (EVE_init e (Inr (a\<lparr>mapper := m\<rparr>)) w)) =
     map_sum id self_mapper (fst (EVE_init e (Inr a) w)) \<and>
   snd (EVE_init e (Inr (a\<lparr>mapper := m\<rparr>)) w) = snd (EVE_init e (Inr a) w)"
proof (intro conjI impI)
  show "load_mapper (ns\<lparr>ns_args := (ns_args ns)\<lparr>mapper := m\<rparr>\<rparr>) = load_mapper ns"
    by (simp add: load_mapper_def)
next
  assume "load_mapper ns = Some x"
  then show "x = Instance ''BWAMapper'' []"
    by (simp add: load_mapper_def split: if_splits)
next
  show "map_sum id self_mapper (fst (EVE_init e (Inr (a\<lparr>mapper := m\<rparr>)) w)) =
     map_sum id self_mapper (fst (EVE_init e (Inr a) w))"
    by (cases "EVE_init e (Inr a) w"; cases "fst (EVE_init e (Inr a) w)")
       (simp_all add: EVE_init_mapper)
  show "snd (EVE_init e (Inr (a\<lparr>mapper := m\<rparr>)) w) = snd (EVE_init e (Inr a) w)"
    by (cases "EVE_init e (Inr a) w") (simp add: EVE_init_mapper)
qed

text \<open>With the attribute \<open>bam\<close> set and \<open>--mapper bowtie\<close>, the mapper loaded is still
  a \<open>BWAMapper\<close>.\<close>

theorem mapper_option_ignored_witness:
  "load_mapper \<lparr>ns_args = sample_args\<lparr>mapper := ''bowtie''\<rparr>, bam = Some ''reads.bam''\<rparr>
     = Some (Instance ''BWAMapper'' [])"
  using mapper_option_ignored [where ns = "\<lparr>ns_args = sample_args, bam = Some ''reads.bam''\<rparr>"
          and m = "''bowtie''" and x = "Instance ''BWAMapper'' []"]
  by (simp add: load_mapper_def)


subsection \<open>Detector configuration and detector names\<close>

text \<open>The detector name \<open>/abs/gatk\<close>, with neither file present: the path chosen is
  \<open>/abs/gatk.txt\<close>, not a path under \<open>config/detectors\<close>.\<close>

theorem detector_conf_fallback_counterexample:
  "\<not> os_exists sample_env sample_world0 (''/abs/gatk'' @ ''.yaml'') \<and>
   \<not> os_exists sample_env sample_world0 (''config/detectors/'' @ ''/abs/gatk'' @ ''.yaml'') \<and>
   detector_conf sample_env sample_world0 ''/abs/gatk'' = ''/abs/gatk.txt'' \<and>
   detector_conf sample_env sample_world0 ''/abs/gatk''
     \<noteq> ''config/detectors/'' @ ''/abs/gatk'' @ ''.txt''"
  by (simp add: detector_conf_def path_join3_def path_join_def startswith_def endswith_def
        sample_env_def sample_world0_def)

text \<open>
  C7 (amended). For a detector name that does not begin with a slash, the configuration
  path chosen is \<open>config/detectors/name.yaml\<close> if that path exists and
  \<open>config/detectors/name.txt\<close> otherwise, whether or not the latter exists; for a
  name that begins with a slash the two candidates are \<open>name.yaml\<close> and \<open>name.txt\<close>
  themselves. The lookup raises nothing: the only exception of the detector loop is
  the \<open>AttributeError\<close> of reading \<open>args.bam\<close>. The path chosen is the one the loop
  hands to the \<open>MpileupDetector\<close> it builds for each \<open>mpileup\<close> in the list.
\<close>

theorem detector_conf_fallback:
  "(\<not> startswith name ''/'' \<longrightarrow>
      detector_conf e w name =
        (if os_exists e w (''config/detectors/'' @ name @ ''.yaml'')
         then ''config/detectors/'' @ name @ ''.yaml''
         else ''config/detectors/'' @ name @ ''.txt'')) \<and>
   (startswith name ''/'' \<longrightarrow>
      detector_conf e w name =
        (if os_exists e w (name @ ''.yaml'') then name @ ''.yaml'' else name @ ''.txt'')) \<and>
   (load_detectors e w ns wd names acc = Inl err \<longrightarrow> err = AttributeError ''bam'') \<and>
   (bam ns = None \<longrightarrow>
      load_detectors e w ns wd names acc =
        (if ''mpileup'' \<in> set names then Inl (AttributeError ''bam'') else Inr acc)) \<and>
   (bam ns = Some b \<longrightarrow>
      load_detectors e w ns wd names acc =
        Inr (acc @ map (\<lambda>d. Instance ''MpileupDetector''
                                  [b, fasta (ns_args ns), detector_conf e w d, wd])
                       (filter (\<lambda>d. d = ''mpileup'') names)))"
proof (intro conjI impI)
  assume "\<not> startswith name ''/''"
  then have "path_join3 ''config'' ''detectors'' (name @ ''.yaml'') =
               ''config/detectors/'' @ name @ ''.yaml''"
    and "path_join3 ''config'' ''detectors'' (name @ ''.txt'') =
               ''config/detectors/'' @ name @ ''.txt''"
    by (simp_all add: path_join3_plain startswith_name_ext)
  then show "detector_conf e w name =
        (if os_exists e w (''config/detectors/'' @ name @ ''.yaml'')
         then ''config/detectors/'' @ name @ ''.yaml''
         else ''config/detectors/'' @ name @ ''.txt'')"
    by (simp add: detector_conf_def Let_def)
next
  assume "startswith name ''/''"
  then have "path_join3 ''config'' ''detectors'' (name @ ''.yaml'') = name @ ''.yaml''"
    and "path_join3 ''config'' ''detectors'' (name @ ''.txt'') = name @ ''.txt''"
    by (simp_all add: path_join3_def path_join_def startswith_name_ext)
  then show "detector_conf e w name =
        (if os_exists e w (name @ ''.yaml'') then name @ ''.yaml'' else name @ ''.txt'')"
    by (simp add: detector_conf_def Let_def)
next
  assume "load_detectors e w ns wd names acc = Inl err"
  then show "err = AttributeError ''bam''" by (rule load_detectors_error)
next
  assume "bam ns = None"
  then show "load_detectors e w ns wd names acc =
        (if ''mpileup'' \<in> set names then Inl (AttributeError ''bam'') else Inr acc)"
    by (rule load_detectors_no_bam)
next
  assume "bam ns = Some b"
  then show "load_detectors e w ns wd names acc =
        Inr (acc @ map (\<lambda>d. Instance ''MpileupDetector''
                                  [b, fasta (ns_args ns), detector_conf e w d, wd])
                       (filter (\<lambda>d. d = ''mpileup'') names))"
    by (rule load_detectors_bam)
qed

text \<open>In the sample world neither file of \<open>gatk\<close> exists and the \<open>.txt\<close> path is
  chosen without an error; once the \<open>.yaml\<close> file exists it is chosen. With the
  attribute \<open>bam\<close> set and the file \<open>config/detectors/mpileup.yaml\<close> present, the
  detector built for \<open>mpileup\<close> gets that path; without the attribute the loop raises
  \<open>AttributeError\<close>.\<close>

theorem detector_conf_fallback_witness:
  "\<not> startswith ''gatk'' ''/'' \<and> startswith ''/abs/gatk'' ''/'' \<and>
   \<not> os_exists sample_env sample_world0 ''config/detectors/gatk.yaml'' \<and>
   \<not> os_exists sample_env sample_world0 ''config/detectors/gatk.txt'' \<and>
   detector_conf sample_env sample_world0 ''gatk'' = ''config/detectors/gatk.txt'' \<and>
   detector_conf sample_env (sample_world0\<lparr>sw_files := [''config/detectors/gatk.yaml'']\<rparr>) ''gatk''
     = ''config/detectors/gatk.yaml'' \<and>
   detector_conf sample_env (sample_world0\<lparr>sw_files := [''/abs/gatk.yaml'']\<rparr>) ''/abs/gatk''
     = ''/abs/gatk.yaml'' \<and>
   load_detectors sample_env sample_world0 \<lparr>ns_args = sample_args, bam = None\<rparr>
     ''output/20140309170542'' [''gatk'', ''mpileup''] [] = Inl (AttributeError ''bam'') \<and>
   load_detectors sample_env (sample_world0\<lparr>sw_files := [''config/detectors/mpileup.yaml'']\<rparr>)
     \<lparr>ns_args = sample_args, bam = Some ''reads.bam''\<rparr>
     ''output/20140309170542'' [''gatk'', ''mpileup''] []
     = Inr [Instance ''MpileupDetector''
              [''reads.bam'', ''genome.fasta'', ''config/detectors/mpileup.yaml'',
               ''output/20140309170542'']]"
proof -
  let ?y = "sample_world0\<lparr>sw_files := [''config/detectors/gatk.yaml'']\<rparr>"
  let ?z = "sample_world0\<lparr>sw_files := [''/abs/gatk.yaml'']\<rparr>"
  let ?m = "sample_world0\<lparr>sw_files := [''config/detectors/mpileup.yaml'']\<rparr>"
  have s: "\<not> startswith ''gatk'' ''/''" "startswith ''/abs/gatk'' ''/''"
       "\<not> startswith ''mpileup'' ''/''"
    by (simp_all add: startswith_def)
  have x: "\<not> os_exists sample_env sample_world0 ''config/detectors/gatk.yaml''"
       "\<not> os_exists sample_env sample_world0 ''config/detectors/gatk.txt''"
       "os_exists sample_env ?y ''config/detectors/gatk.yaml''"
       "os_exists sample_env ?z ''/abs/gatk.yaml''"
       "os_exists sample_env ?m ''config/detectors/mpileup.yaml''"
    by (simp_all add: sample_env_def sample_world0_def)
  have f: "fasta sample_args = ''genome.fasta''"
    by (simp add: sample_args_def)
  note t = detector_conf_fallback [where e = sample_env and wd = "''output/20140309170542''"
             and names = "[''gatk'', ''mpileup'']" and acc = "[]"
             and err = "AttributeError ''bam''"]
  from s x
    t [where w = sample_world0 and name = "''gatk''"
         and ns = "\<lparr>ns_args = sample_args, bam = None\<rparr>" and b = "''reads.bam''"]
  have 1: "detector_conf sample_env sample_world0 ''gatk'' = ''config/detectors/gatk.txt''"
    and 4: "load_detectors sample_env sample_world0 \<lparr>ns_args = sample_args, bam = None\<rparr>
     ''output/20140309170542'' [''gatk'', ''mpileup''] [] = Inl (AttributeError ''bam'')"
    by simp_all
  from s x
    t [where w = ?y and name = "''gatk''"
         and ns = "\<lparr>ns_args = sample_args, bam = None\<rparr>" and b = "''reads.bam''"]
  have 2: "detector_conf sample_env ?y ''gatk'' = ''config/detectors/gatk.yaml''"
    by simp
  from s x
    t [where w = ?z and name = "''/abs/gatk''"
         and ns = "\<lparr>ns_args = sample_args, bam = None\<rparr>" and b = "''reads.bam''"]
  have 3: "detector_conf sample_env ?z ''/abs/gatk'' = ''/abs/gatk.yaml''"
    by simp
  from s x
    t [where w = ?m and name = "''mpileup''"
         and ns = "\<lparr>ns_args = sample_args, bam = Some ''reads.bam''\<rparr>" and b = "''reads.bam''"]
  have 5: "load_detectors sample_env ?m \<lparr>ns_args = sample_args, bam = Some ''reads.bam''\<rparr>
     ''output/20140309170542'' [''gatk'', ''mpileup''] []
     = Inr [Instance ''MpileupDetector''
              [''reads.bam'', ''genome.fasta'', ''config/detectors/mpileup.yaml'',
               ''output/20140309170542'']]"
    by (simp add: f)
  from s x 1 2 3 4 5 show ?thesis by simp
qed

text \<open>A detector list holding only the unknown name \<open>bogus\<close>: the constructor
  succeeds, with no detector.\<close>

theorem unknown_detector_counterexample:
  "(case EVE_init sample_env (Inr (sample_args\<lparr>variant_detectors := ''bogus''\<rparr>)) sample_world0 of
      (Inr app, w1) \<Rightarrow> detectors app = [] \<and> working_dir app = ''output/20140309170542''
    | (Inl err, w1) \<Rightarrow> False)"
  by code_simp

text \<open>
  C3 (amended). Detector names are not validated. The constructor never raises
  \<open>ConfigurationError\<close>; every name other than \<open>mpileup\<close> is skipped silently, and
  whenever the constructor succeeds the detector list is empty. No detector is
  executed by the constructor.
\<close>

theorem unknown_detector_skipped:
  "fst (EVE_init e cli w) \<noteq> Inl ConfigurationError \<and>
   (''mpileup'' \<notin> set names \<longrightarrow> load_detectors e w ns wd names acc = Inr acc) \<and>
   (EVE_init e cli w = (Inr app, w') \<longrightarrow> detectors app = [])"
proof (intro conjI impI)
  show "fst (EVE_init e cli w) \<noteq> Inl ConfigurationError"
  proof
    assume "fst (EVE_init e cli w) = Inl ConfigurationError"
    then have "EVE_init e cli w = (Inl ConfigurationError, snd (EVE_init e cli w))"
      by (metis prod.collapse)
    from EVE_init_error [OF this] show False by simp
  qed
next
  assume "''mpileup'' \<notin> set names"
  then show "load_detectors e w ns wd names acc = Inr acc"
    by (induction names arbitrary: acc) (auto simp: Let_def)
next
  assume "EVE_init e cli w = (Inr app, w')"
  then show "detectors app = []" by (simp add: EVE_init_Inr)
qed

text \<open>Three names without \<open>mpileup\<close>, one of them unknown, leave the list empty.\<close>

theorem unknown_detector_skipped_witness:
  "''mpileup'' \<notin> set [''gatk'', ''bogus'', ''varscan''] \<and>
   load_detectors sample_env sample_world0 \<lparr>ns_args = sample_args, bam = Some ''reads.bam''\<rparr>
     ''output/20140309170542'' [''gatk'', ''bogus'', ''varscan''] [] = Inr []"
  using unknown_detector_skipped [where e = sample_env and w = sample_world0
          and ns = "\<lparr>ns_args = sample_args, bam = Some ''reads.bam''\<rparr>"
          and wd = "''output/20140309170542''"
          and names = "[''gatk'', ''bogus'', ''varscan'']" and acc = "[]"]
  by simp


subsection \<open>The working directory\<close>




subsection \<open>What run does\<close>

text \<open>The sample run lists the detectors \<open>gatk,varscan\<close>. The constructor builds no
  detector, no detector is executed, so none succeeds; \<open>run\<close> returns normally.\<close>

theorem run_returns_normally_counterexample:
  "EVE_init sample_env (Inr sample_args) sample_world0 = (Inr sample_app, sample_world1) \<and>
   detectors sample_app = [] \<and>
   fst (run sample_env sample_app sample_world1) = Inr ()"
  using sample_EVE_init by (simp add: run_def sample_app_def)

text \<open>
  C1 (amended). \<open>run\<close> never raises \<open>NoUsableDetectorOutputsError\<close>. On every pipeline
  object that the constructor builds, \<open>run\<close> executes no detector, returns \<open>None\<close> and
  leaves the object and the world as they were; in particular no path, the output
  destination included, is created by it.
\<close>

theorem run_returns_normally:
  "fst (run e self w) \<noteq> Inl NoUsableDetectorOutputsError \<and>
   (EVE_init e cli w = (Inr app, w1) \<longrightarrow> run e app w1 = (Inr (), w1, app)) \<and>
   (EVE_init e cli w = (Inr app, w1) \<longrightarrow>
      os_exists e (fst (snd (run e app w1))) out = os_exists e w1 out)"
proof (intro conjI impI)
  show "fst (run e self w) \<noteq> Inl NoUsableDetectorOutputsError"
    by (simp add: run_def Let_def split: option.splits prod.splits sum.splits)
next
  assume "EVE_init e cli w = (Inr app, w1)"
  then have "bam (args app) = None" by (simp add: EVE_init_Inr)
  then show "run e app w1 = (Inr (), w1, app)" by (rule run_no_bam)
  then show "os_exists e (fst (snd (run e app w1))) out = os_exists e w1 out" by simp
qed

text \<open>In the sample run the destination \<open>calls.vcf\<close> does not exist after \<open>run\<close>.\<close>

theorem run_returns_normally_witness:
  "EVE_init sample_env (Inr sample_args) sample_world0 = (Inr sample_app, sample_world1) \<and>
   run sample_env sample_app sample_world1 = (Inr (), sample_world1, sample_app) \<and>
   output_file (ns_args (args sample_app)) = Some ''calls.vcf'' \<and>
   \<not> os_exists sample_env (fst (snd (run sample_env sample_app sample_world1))) ''calls.vcf''"
proof -
  have x: "\<not> os_exists sample_env sample_world1 ''calls.vcf''"
    by (simp add: sample_env_def sample_world1_def)
  have o: "output_file (ns_args (args sample_app)) = Some ''calls.vcf''"
    by (simp add: sample_app_def sample_args_def)
  show ?thesis
    using sample_EVE_init x o
      run_returns_normally [where e = sample_env and cli = "Inr sample_args"
        and w = sample_world0 and app = sample_app and ?w1.0 = sample_world1
        and out = "''calls.vcf''"]
    by simp
qed

text \<open>The sample run exits with status 0, and the destination \<open>calls.vcf\<close> exists
  neither before nor after it.\<close>

theorem exit_status_zero_counterexample:
  "main sample_env (Inr sample_args) sample_world0 = (0, sample_world1) \<and>
   output_file sample_args = Some ''calls.vcf'' \<and>
   \<not> os_exists sample_env sample_world0 ''calls.vcf'' \<and>
   \<not> os_exists sample_env sample_world1 ''calls.vcf''"
  using sample_EVE_init
  by (simp add: main_def run_def sample_app_def sample_args_def sample_env_def
        sample_world0_def sample_world1_def)

text \<open>
  C4 (amended). The program writes no output, neither to a temporary location nor to
  the destination: the world after the program is the world that the constructor
  left. Whenever the constructor succeeds the process exits with status 0, that of
  \<open>sys.exit(None)\<close>, whether or not the output destination exists.
\<close>

theorem exit_status_zero:
  "(EVE_init e cli w = (Inr app, w1) \<longrightarrow> main e cli w = (0, w1)) \<and>
   snd (main e cli w) = snd (EVE_init e cli w)"
proof (intro conjI impI)
  assume "EVE_init e cli w = (Inr app, w1)"
  then show "main e cli w = (0, w1)" by (simp add: main_eq)
next
  show "snd (main e cli w) = snd (EVE_init e cli w)"
    by (simp add: main_eq split: prod.splits sum.splits)
qed

text \<open>The sample run.\<close>

theorem exit_status_zero_witness:
  "EVE_init sample_env (Inr sample_args) sample_world0 = (Inr sample_app, sample_world1) \<and>
   main sample_env (Inr sample_args) sample_world0 = (0, sample_world1)"
  using sample_EVE_init
    exit_status_zero [where e = sample_env and cli = "Inr sample_args" and w = sample_world0
      and app = sample_app and ?w1.0 = sample_world1]
  by simp

subsection \<open>The merge of detector calls\<close>



subsection \<open>The order of the detectors\<close>



end
